theory Spec2Isabelle
  imports Main "HOL-Library.Sublist"
begin

section \<open>Python strings\<close>

text \<open>
  A Python \<^verbatim>\<open>str\<close> is modelled as a \<^typ>\<open>string\<close>, a list of \<^typ>\<open>char\<close>. A \<^typ>\<open>char\<close>
  stands for the code point of the same number, so the model of the run covers the strings
  whose code points are below 256 (ASCII and the Latin-1 supplement). On these, Python's
  \<^verbatim>\<open>str.isupper\<close> holds of one character exactly for \<open>A\<close>..\<open>Z\<close> (65..90) and for
  192..222 without the multiplication sign 215, and \<^verbatim>\<open>str.lower\<close> maps each of them to
  the code point 32 above and leaves every other character as it is. The derivation of a
  table name is modelled on all code points as well, further down.
\<close>

definition isupper_char :: "char \<Rightarrow> bool" where
  "isupper_char c =
     (let n = (of_char c :: nat)
      in (65 \<le> n \<and> n \<le> 90) \<or> (192 \<le> n \<and> n \<le> 222 \<and> n \<noteq> 215))"

definition lower_char :: "char \<Rightarrow> char" where
  "lower_char c = (if isupper_char c then char_of (of_char c + (32 :: nat)) else c)"

definition str_lower :: "string \<Rightarrow> string" where
  "str_lower s = map lower_char s"

text \<open>
  \<^verbatim>\<open>s.replace(old, new)\<close> for a non-empty \<^verbatim>\<open>old\<close>: the text is scanned from the left,
  an occurrence of \<^verbatim>\<open>old\<close> at the current position is replaced and the scan goes on
  behind it, so occurrences do not overlap and the inserted text is not scanned again.
\<close>

fun replace_scan :: "'a list \<Rightarrow> 'a list \<Rightarrow> 'a list \<Rightarrow> 'a list" where
  "replace_scan old new [] = []"
| "replace_scan old new (c # cs) =
     (if old \<noteq> [] \<and> prefix old (c # cs)
      then new @ replace_scan old new (drop (length old) (c # cs))
      else c # replace_scan old new cs)"

text \<open>
  With an empty \<^verbatim>\<open>old\<close>, Python puts \<^verbatim>\<open>new\<close> before every character and at the end.
  The replacement does not look at what the characters are, so it is defined for lists of
  any type.
\<close>

definition str_replace :: "'a list \<Rightarrow> 'a list \<Rightarrow> 'a list \<Rightarrow> 'a list" where
  "str_replace old new s =
     (if old = [] then new @ concat (map (\<lambda>c. c # new) s) else replace_scan old new s)"

text \<open>\<^verbatim>\<open>os.path.join(a, b)\<close> of \<^verbatim>\<open>posixpath\<close>, for two components.\<close>

definition path_join :: "string \<Rightarrow> string \<Rightarrow> string" where
  "path_join a b =
     (if prefix ''/'' b then b
      else if a = [] \<or> last a = CHR ''/'' then a @ b
      else a @ ''/'' @ b)"

section \<open>Parsed JSON, errors and the file system\<close>

text \<open>
  What \<^verbatim>\<open>json.load\<close> returns: \<^verbatim>\<open>None\<close>, a bool, a number, a str, a list or a dict.
  A dict is the list of its items in insertion order, with distinct keys (the parser keeps
  the last value of a repeated key). The code never reads a number, so integers stand for
  all of them.
\<close>

datatype json =
    JNull
  | JBool bool
  | JNum int
  | JStr string
  | JArr "json list"
  | JObj "(string \<times> json) list"

datatype error =
    FileNotFoundError
  | IsADirectoryError
  | NotADirectoryError
  | PermissionError
  | JSONDecodeError
  | TypeError
  | KeyError
  | AttributeError

text \<open>
  The file system maps a path, as the program spells it, to a regular file with its text
  or to a directory with the names \<^verbatim>\<open>os.listdir\<close> returns, in that order. A regular
  file can be read and its text is what \<^verbatim>\<open>read\<close> returns in text mode. Paths that
  cannot be opened for writing (no permission, no parent directory) are listed apart.
\<close>

datatype node = File string | Dir "string list"

record world =
  nodes :: "string \<rightharpoonup> node"
  unwritable :: "string set"

definition open_read :: "string \<Rightarrow> world \<Rightarrow> error + string" where
  "open_read p w =
     (case nodes w p of
        None \<Rightarrow> Inl FileNotFoundError
      | Some (Dir ns) \<Rightarrow> Inl IsADirectoryError
      | Some (File s) \<Rightarrow> Inr s)"

definition listdir :: "string \<Rightarrow> world \<Rightarrow> error + string list" where
  "listdir p w =
     (case nodes w p of
        None \<Rightarrow> Inl FileNotFoundError
      | Some (File s) \<Rightarrow> Inl NotADirectoryError
      | Some (Dir ns) \<Rightarrow> Inr ns)"

text \<open>
  \<^verbatim>\<open>open(p, 'w')\<close> followed by \<^verbatim>\<open>file.write(s)\<close>: the file at \<^verbatim>\<open>p\<close> is created or
  truncated and then holds \<^verbatim>\<open>s\<close>; when the open fails nothing changes. A listing is
  what \<^verbatim>\<open>os.listdir\<close> returned when the run read it, before the write, and is left as
  it is: the state after the write tells what the files hold, not how a directory would
  list a file that the write has created.
\<close>

definition open_write :: "string \<Rightarrow> string \<Rightarrow> world \<Rightarrow> (error + unit) \<times> world" where
  "open_write p s w =
     (case nodes w p of
        Some (Dir ns) \<Rightarrow> (Inl IsADirectoryError, w)
      | _ \<Rightarrow>
          if p \<in> unwritable w then (Inl PermissionError, w)
          else (Inr (), w\<lparr>nodes := (nodes w)(p \<mapsto> File s)\<rparr>))"

section \<open>The generator\<close>

definition manifests_dir :: string where
  "manifests_dir = ''../../../protos/manifests/''"

definition sql_template_path :: string where
  "sql_template_path =
     ''./configure_timeseries_maintenance_template/configure_timeseries_maintenance.sql''"

definition output_dir :: string where
  "output_dir = ''./''"

definition output_file_name :: string where
  "output_file_name = ''V4__configure_timeseries_maintenance.sql''"

definition newline :: string where
  "newline = [CHR 0x0A]"

definition header :: string where
  "header = ''-- Generated SQL code for configuring timeseries maintenance'' @ newline @ newline"

definition token :: string where
  "token = ''{table_name}''"

text \<open>
  \<^verbatim>\<open>for entry in manifest_json\<close>: a list gives its elements, a dict its keys, a str its
  characters; anything else is not iterable.
\<close>

definition py_iter :: "json \<Rightarrow> error + json list" where
  "py_iter j =
     (case j of
        JArr xs \<Rightarrow> Inr xs
      | JObj kvs \<Rightarrow> Inr (map (\<lambda>kv. JStr (fst kv)) kvs)
      | JStr s \<Rightarrow> Inr (map (\<lambda>c. JStr [c]) s)
      | _ \<Rightarrow> Inl TypeError)"

text \<open>
  \<^verbatim>\<open>entry["ProtoDefName"].replace(".", "_").lower()\<close>: subscripting anything but a dict
  with a str is a TypeError, a missing key a KeyError, and a value that is not a str has
  no \<^verbatim>\<open>replace\<close>.
\<close>

definition table_name_of :: "json \<Rightarrow> error + string" where
  "table_name_of entry =
     (case entry of
        JObj kvs \<Rightarrow>
          (case map_of kvs ''ProtoDefName'' of
             None \<Rightarrow> Inl KeyError
           | Some (JStr p) \<Rightarrow> Inr (str_lower (str_replace ''.'' ''_'' p))
           | Some _ \<Rightarrow> Inl AttributeError)
      | _ \<Rightarrow> Inl TypeError)"

fun gather_entries :: "json list \<Rightarrow> string list \<Rightarrow> error + string list" where
  "gather_entries [] table_names = Inr table_names"
| "gather_entries (entry # entries) table_names =
     (case table_name_of entry of
        Inl e \<Rightarrow> Inl e
      | Inr table_name \<Rightarrow> gather_entries entries (table_names @ [table_name]))"

fun load_manifests ::
  "(string \<Rightarrow> json option) \<Rightarrow> world \<Rightarrow> string list \<Rightarrow> string list \<Rightarrow> error + string list"
where
  "load_manifests json_load w [] table_names = Inr table_names"
| "load_manifests json_load w (file_name # file_names) table_names =
     (case open_read (path_join manifests_dir file_name) w of
        Inl e \<Rightarrow> Inl e
      | Inr text \<Rightarrow>
          (case json_load text of
             None \<Rightarrow> Inl JSONDecodeError
           | Some manifest_json \<Rightarrow>
               (case py_iter manifest_json of
                  Inl e \<Rightarrow> Inl e
                | Inr entries \<Rightarrow>
                    (case gather_entries entries table_names of
                       Inl e \<Rightarrow> Inl e
                     | Inr table_names' \<Rightarrow>
                         load_manifests json_load w file_names table_names'))))"

fun create_sql :: "string \<Rightarrow> string list \<Rightarrow> string \<Rightarrow> string" where
  "create_sql sql_template [] output_code = output_code"
| "create_sql sql_template (table_name # table_names) output_code =
     create_sql sql_template table_names
       (output_code @ str_replace token table_name sql_template @ newline)"

text \<open>
  The buffer the run assembles before it writes: the template is read first, then the
  directory is listed and every manifest loaded, then the blocks are appended to the
  header. \<^verbatim>\<open>json_load\<close> is the parser of Python's library (\<open>None\<close> where it raises).
\<close>

definition build_output_code :: "(string \<Rightarrow> json option) \<Rightarrow> world \<Rightarrow> error + string" where
  "build_output_code json_load w =
     (case open_read sql_template_path w of
        Inl e \<Rightarrow> Inl e
      | Inr sql_template \<Rightarrow>
          (case listdir manifests_dir w of
             Inl e \<Rightarrow> Inl e
           | Inr file_names \<Rightarrow>
               (case load_manifests json_load w file_names [] of
                  Inl e \<Rightarrow> Inl e
                | Inr table_names \<Rightarrow> Inr (create_sql sql_template table_names header))))"

definition generate_migration ::
  "(string \<Rightarrow> json option) \<Rightarrow> string \<Rightarrow> world \<Rightarrow> (error + unit) \<times> world"
where
  "generate_migration json_load out_dir w =
     (case build_output_code json_load w of
        Inl e \<Rightarrow> (Inl e, w)
      | Inr output_code \<Rightarrow> open_write (path_join out_dir output_file_name) output_code w)"

text \<open>
  The module ends with the call \<^verbatim>\<open>generate_migration(output_dir)\<close>, with the module's
  \<^verbatim>\<open>output_dir\<close>; the parameter of the function, of the same name in the source, is
  \<open>out_dir\<close> here.
\<close>

section \<open>The table name on all code points\<close>

text \<open>
  A Python \<^verbatim>\<open>str\<close> holds code points up to 1114111. Here a string is the list of its
  code points as natural numbers, so that \<^verbatim>\<open>replace(".", "_").lower()\<close> can be
  followed on any \<^verbatim>\<open>ProtoDefName\<close>. What \<^verbatim>\<open>str.lower\<close> and \<^verbatim>\<open>str.isupper\<close> do
  beyond code point 255 is laid down in the Unicode data of the Python library, which is
  taken as a parameter: \<open>db_lower\<close> is \<^verbatim>\<open>str.lower\<close> on the strings with a code point
  above 255 (it is not character by character there), \<open>db_isupper\<close> is
  \<^verbatim>\<open>str.isupper\<close> on a single such code point. On strings below 256 lower-casing is
  \<open>lower_char\<close> on every character.
\<close>

record unicode_db =
  db_lower :: "nat list \<Rightarrow> nat list"
  db_isupper :: "nat \<Rightarrow> bool"

definition wide_lower :: "unicode_db \<Rightarrow> nat list \<Rightarrow> nat list" where
  "wide_lower db s =
     (if list_all (\<lambda>c. c < 256) s then map (\<lambda>c. of_char (lower_char (char_of c))) s
      else db_lower db s)"

definition wide_isupper :: "unicode_db \<Rightarrow> nat \<Rightarrow> bool" where
  "wide_isupper db c = (if c < 256 then isupper_char (char_of c) else db_isupper db c)"

definition wide_table_name :: "unicode_db \<Rightarrow> nat list \<Rightarrow> nat list" where
  "wide_table_name db proto_def_name =
     wide_lower db
       (str_replace [of_char (CHR ''.'')] [of_char (CHR ''_'')] proto_def_name)"

section \<open>Notions used in the statements\<close>

text \<open>
  What one manifest file contributes to the inner loop: the file is opened and parsed and
  the parsed value is iterated.
\<close>

definition file_entries ::
  "(string \<Rightarrow> json option) \<Rightarrow> world \<Rightarrow> string \<Rightarrow> error + json list"
where
  "file_entries json_load w file_name =
     (case open_read (path_join manifests_dir file_name) w of
        Inl e \<Rightarrow> Inl e
      | Inr text \<Rightarrow>
          (case json_load text of
             None \<Rightarrow> Inl JSONDecodeError
           | Some manifest_json \<Rightarrow> py_iter manifest_json))"

text \<open>The paths a run reads: the template, the manifest directory and the files listed in it.\<close>

definition input_paths :: "world \<Rightarrow> string set" where
  "input_paths w =
     insert sql_template_path (insert manifests_dir
       (case listdir manifests_dir w of
          Inl e \<Rightarrow> {}
        | Inr file_names \<Rightarrow> set (map (path_join manifests_dir) file_names)))"

definition output_path :: "string \<Rightarrow> string" where
  "output_path out_dir = path_join out_dir output_file_name"

text \<open>The path can be opened for writing: it is no directory and not barred.\<close>

definition can_write :: "world \<Rightarrow> string \<Rightarrow> bool" where
  "can_write w p =
     (p \<notin> unwritable w \<and> (case nodes w p of Some (Dir ns) \<Rightarrow> False | _ \<Rightarrow> True))"




section \<open>Example data\<close>

text \<open>
  The scenario of the specification: one manifest file with the entries \<^verbatim>\<open>a.B\<close> and
  \<^verbatim>\<open>C.d\<close>. \<open>scenario_json_load\<close> tabulates what \<^verbatim>\<open>json.load\<close> returns on the texts
  the examples use; it is \<open>None\<close>, as for a text that is not JSON, everywhere else.
\<close>

definition scenario_template :: string where
  \<open>scenario_template = ''SELECT '{table_name}' AS t;''\<close>

definition scenario_manifest :: string where
  \<open>scenario_manifest = ''[{"ProtoDefName":"a.B"},{"ProtoDefName":"C.d"}]''\<close>

definition scenario_single :: string where
  \<open>scenario_single = ''[{"ProtoDefName":"a.B"}]''\<close>

definition scenario_unnamed :: string where
  \<open>scenario_unnamed = ''[{"Name":"a.B"}]''\<close>

definition two_manifests :: "(string \<times> string) list" where
  "two_manifests = [(''a.json'', scenario_manifest), (''b.json'', scenario_single)]"

definition scenario_json_load :: "string \<Rightarrow> json option" where
  \<open>scenario_json_load =
     map_of
       [(scenario_manifest,
           JArr [JObj [(''ProtoDefName'', JStr ''a.B'')], JObj [(''ProtoDefName'', JStr ''C.d'')]]),
        (scenario_single, JArr [JObj [(''ProtoDefName'', JStr ''a.B'')]]),
        (''[]'', JArr []),
        (scenario_unnamed, JArr [JObj [(''Name'', JStr ''a.B'')]])]\<close>

text \<open>
  A file system with the template and, in the manifest directory, the given files (name
  and text) in listing order; every path can be written.
\<close>

definition scenario_world :: "string \<Rightarrow> (string \<times> string) list \<Rightarrow> world" where
  "scenario_world template manifests =
     \<lparr>nodes =
        map_of
          ((sql_template_path, File template) #
           (manifests_dir, Dir (map fst manifests)) #
           map (\<lambda>m. (path_join manifests_dir (fst m), File (snd m))) manifests),
      unwritable = {}\<rparr>"

text \<open>
  What the run writes in the scenario, and what the specification gives as its output
  there, with an empty line behind each block.
\<close>

definition scenario_output :: string where
  \<open>scenario_output =
     ''-- Generated SQL code for configuring timeseries maintenance'' @ [CHR 0x0A, CHR 0x0A] @
     ''SELECT 'a_b' AS t;'' @ [CHR 0x0A] @
     ''SELECT 'c_d' AS t;'' @ [CHR 0x0A]\<close>

definition scenario_output_claimed :: string where
  \<open>scenario_output_claimed =
     ''-- Generated SQL code for configuring timeseries maintenance'' @ [CHR 0x0A, CHR 0x0A] @
     ''SELECT 'a_b' AS t;'' @ [CHR 0x0A, CHR 0x0A] @
     ''SELECT 'c_d' AS t;'' @ [CHR 0x0A, CHR 0x0A]\<close>

text \<open>The file system of the scenario with an output file left by an earlier run.\<close>

definition stale_world :: world where
  "stale_world =
     (scenario_world scenario_template [(''tables.json'', scenario_manifest)])
       \<lparr>nodes :=
          (nodes (scenario_world scenario_template [(''tables.json'', scenario_manifest)]))
            (output_path output_dir \<mapsto> File ''-- stale'')\<rparr>"


section \<open>Facts about characters and single-character replacement\<close>



lemma char_eq_dot_iff: "c = CHR ''.'' \<longleftrightarrow> (of_char c :: nat) = 46"
proof -
  have "(of_char (CHR ''.'') :: nat) = 46" by simp
  then show ?thesis by (metis of_char_eq_iff)
qed


lemma replace_scan_single:
  "replace_scan [a] [b] s = map (\<lambda>c. if c = a then b else c) s"
  by (induction s) auto

lemma str_replace_single:
  "str_replace [a] [b] s = map (\<lambda>c. if c = a then b else c) s"
  by (simp add: str_replace_def replace_scan_single)

lemma wide_table_name_latin1:
  assumes "list_all (\<lambda>c. c < 256) p"
  shows "wide_table_name db p =
    map (\<lambda>c. of_char (lower_char (char_of (if c = 46 then 95 else c)))) p"
proof -
  have r: "str_replace [of_char (CHR ''.'')] [of_char (CHR ''_'')] p
      = map (\<lambda>c. if c = 46 then 95 else c) p"
    by (simp add: str_replace_single)
  have "list_all (\<lambda>c. c < 256) (map (\<lambda>c. if c = (46 :: nat) then 95 else c) p)"
    using assms by (auto simp: list_all_iff)
  then show ?thesis
    unfolding wide_table_name_def r wide_lower_def by (simp add: comp_def)
qed




text \<open>
  On the strings of the run's model the table name on code points is the table name the
  run derives, and uppercase means the same.
\<close>

lemma wide_table_name_of_string:
  "wide_table_name db (map of_char p) = map of_char (str_lower (str_replace ''.'' ''_'' p))"
proof -
  have "list_all (\<lambda>c. c < 256) (map of_char p :: nat list)"
    by (simp add: list_all_iff)
  then have "wide_table_name db (map of_char p) =
    map (\<lambda>c. of_char (lower_char (char_of (if c = (46 :: nat) then 95 else c)))) (map of_char p)"
    by (rule wide_table_name_latin1)
  moreover have "(of_char (lower_char (char_of (if (of_char x :: nat) = 46 then 95 else of_char x :: nat))) :: nat)
      = of_char (lower_char (if x = CHR ''.'' then CHR ''_'' else x))" for x
  proof -
    have u: "char_of (95 :: nat) = CHR ''_''"
      by (simp add: char_of_eq_iff)
    show ?thesis
      by (simp add: char_eq_dot_iff u)
  qed
  ultimately show ?thesis
    by (simp add: str_lower_def str_replace_single comp_def)
qed

lemma wide_isupper_of_char: "wide_isupper db (of_char c) = isupper_char c"
  by (simp add: wide_isupper_def)

section \<open>Facts about the loops\<close>

lemma load_manifests_Cons:
  "load_manifests jl w (n # ns) acc =
     (case file_entries jl w n of
        Inl e \<Rightarrow> Inl e
      | Inr es \<Rightarrow>
          (case gather_entries es acc of
             Inl e \<Rightarrow> Inl e
           | Inr acc' \<Rightarrow> load_manifests jl w ns acc'))"
  by (simp add: file_entries_def split: sum.splits option.splits)

lemma gather_entries_ok:
  "map table_name_of es = map Inr ts \<Longrightarrow> gather_entries es acc = Inr (acc @ ts)"
  by (induction es arbitrary: acc ts) auto


lemma gather_entries_bad:
  "e \<in> set es \<Longrightarrow> table_name_of e = Inl err \<Longrightarrow> \<exists>err'. gather_entries es acc = Inl err'"
proof (induction es arbitrary: acc)
  case Nil
  then show ?case by simp
next
  case (Cons x xs)
  show ?case
  proof (cases "table_name_of x")
    case (Inl a)
    then show ?thesis by simp
  next
    case (Inr t)
    with Cons.prems have "e \<in> set xs" by auto
    from Cons.IH [OF this Cons.prems(2)] Inr show ?thesis by simp
  qed
qed

lemma load_manifests_ok:
  "list_all2 (\<lambda>n es. file_entries jl w n = Inr es) ns ess \<Longrightarrow>
   map table_name_of (concat ess) = map Inr ts \<Longrightarrow>
   load_manifests jl w ns acc = Inr (acc @ ts)"
proof (induction ns ess arbitrary: acc ts rule: list_all2_induct)
  case Nil
  then show ?case by simp
next
  case (Cons n ns es ess)
  from Cons.prems have m: "map table_name_of es @ map table_name_of (concat ess) = map Inr ts"
    by simp
  define k where "k = length es"
  have "map table_name_of es = map Inr (take k ts)"
    and r: "map table_name_of (concat ess) = map Inr (drop k ts)"
    using m unfolding k_def
    by (metis append_eq_conv_conj length_map take_map, metis append_eq_conv_conj length_map drop_map)
  then have "gather_entries es acc = Inr (acc @ take k ts)"
    by (simp add: gather_entries_ok)
  moreover have "load_manifests jl w ns (acc @ take k ts) = Inr ((acc @ take k ts) @ drop k ts)"
    by (rule Cons.IH [OF r])
  ultimately show ?case
    using Cons.hyps(1) by (simp add: load_manifests_Cons del: load_manifests.simps)
qed


lemma load_manifests_bad_file:
  "n \<in> set ns \<Longrightarrow> file_entries jl w n = Inl err \<Longrightarrow>
     \<exists>err'. load_manifests jl w ns acc = Inl err'"
proof (induction ns arbitrary: acc)
  case Nil
  then show ?case by simp
next
  case (Cons x xs)
  show ?case
  proof (cases "load_manifests jl w (x # xs) acc")
    case (Inl a)
    then show ?thesis by blast
  next
    case (Inr ts)
    then obtain es acc' where es: "file_entries jl w x = Inr es"
      and rest: "load_manifests jl w xs acc' = Inr ts"
      by (auto simp: load_manifests_Cons simp del: load_manifests.simps split: sum.splits)
    with Cons.prems have "n \<in> set xs" by auto
    from Cons.IH [OF this Cons.prems(2), of acc'] rest show ?thesis by simp
  qed
qed

lemma load_manifests_bad_entry:
  "n \<in> set ns \<Longrightarrow> file_entries jl w n = Inr es \<Longrightarrow> e \<in> set es \<Longrightarrow>
   table_name_of e = Inl err \<Longrightarrow> \<exists>err'. load_manifests jl w ns acc = Inl err'"
proof (induction ns arbitrary: acc)
  case Nil
  then show ?case by simp
next
  case (Cons x xs)
  show ?case
  proof (cases "load_manifests jl w (x # xs) acc")
    case (Inl a)
    then show ?thesis by blast
  next
    case (Inr ts)
    then obtain es' acc' where es': "file_entries jl w x = Inr es'"
      and g: "gather_entries es' acc = Inr acc'"
      and rest: "load_manifests jl w xs acc' = Inr ts"
      by (auto simp: load_manifests_Cons simp del: load_manifests.simps split: sum.splits)
    have "x \<noteq> n"
    proof
      assume "x = n"
      with es' Cons.prems(2) have "es' = es" by simp
      with gather_entries_bad [OF Cons.prems(3,4), of acc] g show False by simp
    qed
    with Cons.prems have "n \<in> set xs" by auto
    from Cons.IH [OF this Cons.prems(2-4), of acc'] rest show ?thesis by simp
  qed
qed

lemma create_sql_eq:
  "create_sql tpl ts out = out @ concat (map (\<lambda>t. str_replace token t tpl @ newline) ts)"
  by (induction ts arbitrary: out) auto




section \<open>Facts about occurrences and replacement\<close>
















section \<open>Facts about a run\<close>

lemma build_output_code_ok:
  assumes "nodes w sql_template_path = Some (File tpl)"
    and "nodes w manifests_dir = Some (Dir file_names)"
    and "load_manifests jl w file_names [] = Inr table_names"
  shows "build_output_code jl w =
    Inr (header @ concat (map (\<lambda>t. str_replace token t tpl @ newline) table_names))"
  using assms by (simp add: build_output_code_def open_read_def listdir_def create_sql_eq)

lemma build_output_code_Inr:
  assumes "build_output_code jl w = Inr buf"
  shows "\<exists>tpl file_names table_names.
    nodes w sql_template_path = Some (File tpl) \<and>
    nodes w manifests_dir = Some (Dir file_names) \<and>
    load_manifests jl w file_names [] = Inr table_names \<and>
    buf = header @ concat (map (\<lambda>t. str_replace token t tpl @ newline) table_names)"
  using assms
  by (auto simp: build_output_code_def open_read_def listdir_def create_sql_eq
      split: option.splits node.splits sum.splits)

lemma generate_migration_Inr:
  assumes "generate_migration jl od w = (Inr (), w')"
  shows "\<exists>buf. build_output_code jl w = Inr buf \<and>
    (\<forall>ns. nodes w (output_path od) \<noteq> Some (Dir ns)) \<and>
    output_path od \<notin> unwritable w \<and>
    w' = w\<lparr>nodes := (nodes w)(output_path od \<mapsto> File buf)\<rparr>"
  using assms
  by (auto simp: generate_migration_def open_write_def output_path_def
      split: sum.splits option.splits node.splits if_splits)

lemma generate_migration_ok:
  assumes "build_output_code jl w = Inr buf"
    and "\<And>ns. nodes w (output_path od) \<noteq> Some (Dir ns)"
    and "output_path od \<notin> unwritable w"
  shows "generate_migration jl od w =
    (Inr (), w\<lparr>nodes := (nodes w)(output_path od \<mapsto> File buf)\<rparr>)"
  using assms
  by (auto simp: generate_migration_def open_write_def output_path_def
      split: option.splits node.splits)

lemma can_write_iff:
  "can_write w p \<longleftrightarrow> (\<forall>ns. nodes w p \<noteq> Some (Dir ns)) \<and> p \<notin> unwritable w"
  by (auto simp: can_write_def split: option.splits node.splits)

lemma generate_migration_fail:
  assumes "build_output_code jl w = Inl e"
  shows "generate_migration jl od w = (Inl e, w)"
  using assms by (simp add: generate_migration_def)

lemma load_manifests_cong:
  assumes "\<And>n. n \<in> set ns \<Longrightarrow>
      nodes w2 (path_join manifests_dir n) = nodes w1 (path_join manifests_dir n)"
  shows "load_manifests jl w2 ns acc = load_manifests jl w1 ns acc"
  using assms
proof (induction ns arbitrary: acc)
  case Nil
  then show ?case by simp
next
  case (Cons n ns)
  have "file_entries jl w2 n = file_entries jl w1 n"
    using Cons.prems [of n] by (simp add: file_entries_def open_read_def)
  moreover have "load_manifests jl w2 ns acc' = load_manifests jl w1 ns acc'" for acc'
    by (rule Cons.IH) (simp add: Cons.prems)
  ultimately show ?case
    by (simp add: load_manifests_Cons split: sum.splits del: load_manifests.simps)
qed

lemma build_output_code_cong:
  assumes "\<And>p. p \<in> input_paths w1 \<Longrightarrow> nodes w2 p = nodes w1 p"
  shows "build_output_code jl w2 = build_output_code jl w1"
proof -
  have t: "nodes w2 sql_template_path = nodes w1 sql_template_path"
    and d: "nodes w2 manifests_dir = nodes w1 manifests_dir"
    using assms by (simp_all add: input_paths_def)
  have l: "load_manifests jl w2 ns [] = load_manifests jl w1 ns []"
    if "nodes w1 manifests_dir = Some (Dir ns)" for ns
  proof (rule load_manifests_cong)
    fix n assume "n \<in> set ns"
    with that have "path_join manifests_dir n \<in> input_paths w1"
      by (simp add: input_paths_def listdir_def)
    then show "nodes w2 (path_join manifests_dir n) = nodes w1 (path_join manifests_dir n)"
      by (rule assms)
  qed
  show ?thesis
    using t d l
    by (auto simp: build_output_code_def open_read_def listdir_def
        split: option.splits node.splits sum.splits)
qed

lemma ends_with_newline:
  "\<exists>s. header @ concat (map (\<lambda>t. str_replace token t tpl @ newline) ts) = s @ newline"
proof (cases ts rule: rev_cases)
  case Nil
  then show ?thesis by (simp add: header_def)
next
  case (snoc ts' t)
  then have "header @ concat (map (\<lambda>t. str_replace token t tpl @ newline) ts)
    = (header @ concat (map (\<lambda>t. str_replace token t tpl @ newline) ts') @ str_replace token t tpl)
       @ newline"
    by simp
  then show ?thesis by blast
qed

lemma file_entries_records:
  assumes "nodes w (path_join manifests_dir n) = Some (File text)"
    and "jl text = Some (JArr es)"
  shows "file_entries jl w n = Inr es"
  using assms by (simp add: file_entries_def open_read_def py_iter_def)

lemma table_names_of_records:
  "map (\<lambda>r. map_of r ''ProtoDefName'') rs = map (\<lambda>p. Some (JStr p)) ps \<Longrightarrow>
   map table_name_of (map JObj rs) =
     map Inr (map (\<lambda>p. str_lower (str_replace ''.'' ''_'' p)) ps)"
  by (induction rs arbitrary: ps) (auto simp: table_name_of_def)

lemma file_entries_all:
  assumes "map (\<lambda>n. nodes w (path_join manifests_dir n)) ns = map (\<lambda>text. Some (File text)) texts"
    and "map jl texts = map (\<lambda>es. Some (JArr es)) ess"
  shows "list_all2 (\<lambda>n es. file_entries jl w n = Inr es) ns ess"
proof -
  have l1: "length ns = length texts" using assms(1) by (rule map_eq_imp_length_eq)
  have l2: "length texts = length ess" using assms(2) by (rule map_eq_imp_length_eq)
  show ?thesis
  proof (rule list_all2_all_nthI)
    show "length ns = length ess" using l1 l2 by simp
  next
    fix i assume i: "i < length ns"
    have "map (\<lambda>n. nodes w (path_join manifests_dir n)) ns ! i
        = map (\<lambda>text. Some (File text)) texts ! i"
      using assms(1) by simp
    with i l1 have a: "nodes w (path_join manifests_dir (ns ! i)) = Some (File (texts ! i))"
      by simp
    have "map jl texts ! i = map (\<lambda>es. Some (JArr es)) ess ! i"
      using assms(2) by simp
    with i l1 l2 have b: "jl (texts ! i) = Some (JArr (ess ! i))"
      by simp
    from a b show "file_entries jl w (ns ! i) = Inr (ess ! i)"
      by (rule file_entries_records)
  qed
qed

lemma output_path_default: "output_path output_dir = ''./V4__configure_timeseries_maintenance.sql''"
  by (simp add: output_path_def output_dir_def path_join_def output_file_name_def)

lemma default_output_not_input: "output_path output_dir \<notin> input_paths w"
proof
  assume "output_path output_dir \<in> input_paths w"
  then consider "output_path output_dir = sql_template_path"
    | "output_path output_dir = manifests_dir"
    | n where "output_path output_dir = path_join manifests_dir n"
    by (auto simp: input_paths_def split: sum.splits)
  then show False
  proof cases
    case 1
    then show ?thesis by (simp add: output_path_default sql_template_path_def)
  next
    case 2
    then show ?thesis by (simp add: output_path_default manifests_dir_def)
  next
    case 3
    then show ?thesis
      by (cases n) (auto simp: output_path_default manifests_dir_def path_join_def split: if_splits)
  qed
qed

lemma write_after_clear:
  "w\<lparr>nodes := (nodes w)(p \<mapsto> x)\<rparr>
     = (w\<lparr>nodes := (nodes w)(p := None)\<rparr>)
         \<lparr>nodes := (nodes (w\<lparr>nodes := (nodes w)(p := None)\<rparr>))(p \<mapsto> x)\<rparr>"
  by simp

lemma rewrite_same_world:
  assumes run: "generate_migration jl od w = (Inr (), w')"
    and same: "\<And>p. p \<in> input_paths w \<Longrightarrow> nodes v p = nodes w p"
    and unw: "unwritable v = unwritable w"
    and nodir: "\<And>ns. nodes v (output_path od) \<noteq> Some (Dir ns)"
    and rest: "v\<lparr>nodes := (nodes v)(output_path od := None)\<rparr>
       = w\<lparr>nodes := (nodes w)(output_path od := None)\<rparr>"
  shows "generate_migration jl od v = (Inr (), w')"
proof -
  from generate_migration_Inr [OF run] obtain buf where
    b: "build_output_code jl w = Inr buf"
    and u: "output_path od \<notin> unwritable w"
    and w': "w' = w\<lparr>nodes := (nodes w)(output_path od \<mapsto> File buf)\<rparr>"
    by blast
  have "build_output_code jl v = build_output_code jl w"
    by (rule build_output_code_cong) (rule same)
  with b have bv: "build_output_code jl v = Inr buf" by (simp only:)
  from u unw have uv: "output_path od \<notin> unwritable v" by simp
  from bv nodir uv have "generate_migration jl od v =
      (Inr (), v\<lparr>nodes := (nodes v)(output_path od \<mapsto> File buf)\<rparr>)"
    by (rule generate_migration_ok)
  also have "v\<lparr>nodes := (nodes v)(output_path od \<mapsto> File buf)\<rparr>
      = w\<lparr>nodes := (nodes w)(output_path od \<mapsto> File buf)\<rparr>"
    by (subst write_after_clear, subst (2) write_after_clear) (simp only: rest)
  finally show ?thesis by (simp only: w')
qed

lemma rerun_with_old_content:
  assumes run: "generate_migration jl od w = (Inr (), w')"
    and out: "output_path od \<notin> input_paths w"
  shows "generate_migration jl od (w\<lparr>nodes := (nodes w)(output_path od \<mapsto> File old)\<rparr>)
    = (Inr (), w')"
  using run
proof (rule rewrite_same_world)
  fix p assume "p \<in> input_paths w"
  with out have "p \<noteq> output_path od" by auto
  then show "nodes (w\<lparr>nodes := (nodes w)(output_path od \<mapsto> File old)\<rparr>) p = nodes w p"
    by simp
next
  show "unwritable (w\<lparr>nodes := (nodes w)(output_path od \<mapsto> File old)\<rparr>) = unwritable w"
    by simp
next
  fix ns
  show "nodes (w\<lparr>nodes := (nodes w)(output_path od \<mapsto> File old)\<rparr>) (output_path od)
      \<noteq> Some (Dir ns)"
    by simp
next
  show "(w\<lparr>nodes := (nodes w)(output_path od \<mapsto> File old)\<rparr>)
      \<lparr>nodes := (nodes (w\<lparr>nodes := (nodes w)(output_path od \<mapsto> File old)\<rparr>))
          (output_path od := None)\<rparr>
    = w\<lparr>nodes := (nodes w)(output_path od := None)\<rparr>"
    by simp
qed

lemma rerun_fixpoint:
  assumes run: "generate_migration jl od w = (Inr (), w')"
    and out: "output_path od \<notin> input_paths w"
  shows "generate_migration jl od w' = (Inr (), w')"
proof -
  from generate_migration_Inr [OF run] obtain buf where
    w': "w' = w\<lparr>nodes := (nodes w)(output_path od \<mapsto> File buf)\<rparr>"
    by blast
  from run out show ?thesis
    unfolding w' by (rule rerun_with_old_content)
qed

lemma run_ok:
  assumes "build_output_code jl w = Inr buf" and "can_write w (output_path od)"
  shows "generate_migration jl od w =
    (Inr (), w\<lparr>nodes := (nodes w)(output_path od \<mapsto> File buf)\<rparr>)"
  using assms by (auto simp: can_write_iff intro: generate_migration_ok)

section \<open>The claims\<close>

text \<open>
  C1. The file a run writes is the header line and an empty line, followed by the expanded
  blocks in the order of the table names, each block followed by one newline character.
  In the scenario, with the template \<^verbatim>\<open>SELECT '{table_name}' AS t;\<close> and the entries
  \<^verbatim>\<open>a.B\<close> and \<^verbatim>\<open>C.d\<close>, the two statements stand on consecutive lines; with the
  same template ended by a newline there is an empty line behind each.
\<close>

theorem output_is_header_then_blocks:
  "(nodes w sql_template_path = Some (File tpl) \<and>
    nodes w manifests_dir = Some (Dir file_names) \<and>
    load_manifests json_load w file_names [] = Inr table_names \<and>
    can_write w (output_path out_dir) \<longrightarrow>
    generate_migration json_load out_dir w =
      (Inr (), w\<lparr>nodes := (nodes w)(output_path out_dir \<mapsto>
         File (''-- Generated SQL code for configuring timeseries maintenance''
                 @ [CHR 0x0A, CHR 0x0A]
                 @ concat (map (\<lambda>block. block @ [CHR 0x0A])
                     (map (\<lambda>t. str_replace token t tpl) table_names))))\<rparr>)) \<and>
   nodes (snd (generate_migration scenario_json_load output_dir
       (scenario_world scenario_template [(''tables.json'', scenario_manifest)])))
     (output_path output_dir) = Some (File scenario_output) \<and>
   nodes (snd (generate_migration scenario_json_load output_dir
       (scenario_world (scenario_template @ [CHR 0x0A]) [(''tables.json'', scenario_manifest)])))
     (output_path output_dir) = Some (File scenario_output_claimed)"
proof (intro conjI impI)
  assume a: "nodes w sql_template_path = Some (File tpl) \<and>
    nodes w manifests_dir = Some (Dir file_names) \<and>
    load_manifests json_load w file_names [] = Inr table_names \<and>
    can_write w (output_path out_dir)"
  then have "build_output_code json_load w =
      Inr (header @ concat (map (\<lambda>t. str_replace token t tpl @ newline) table_names))"
    by (simp add: build_output_code_ok)
  moreover from a have "can_write w (output_path out_dir)" by simp
  ultimately have "generate_migration json_load out_dir w =
    (Inr (), w\<lparr>nodes := (nodes w)(output_path out_dir \<mapsto>
       File (header @ concat (map (\<lambda>t. str_replace token t tpl @ newline) table_names)))\<rparr>)"
    by (rule run_ok)
  then show "generate_migration json_load out_dir w =
      (Inr (), w\<lparr>nodes := (nodes w)(output_path out_dir \<mapsto>
         File (''-- Generated SQL code for configuring timeseries maintenance''
                 @ [CHR 0x0A, CHR 0x0A]
                 @ concat (map (\<lambda>block. block @ [CHR 0x0A])
                     (map (\<lambda>t. str_replace token t tpl) table_names))))\<rparr>)"
    by (simp add: header_def newline_def comp_def)
next
  show "nodes (snd (generate_migration scenario_json_load output_dir
       (scenario_world scenario_template [(''tables.json'', scenario_manifest)])))
     (output_path output_dir) = Some (File scenario_output)"
    by code_simp
next
  show "nodes (snd (generate_migration scenario_json_load output_dir
       (scenario_world (scenario_template @ [CHR 0x0A]) [(''tables.json'', scenario_manifest)])))
     (output_path output_dir) = Some (File scenario_output_claimed)"
    by code_simp
qed

text \<open>The general statement at the scenario.\<close>

theorem output_is_header_then_blocks_witness:
  "nodes (scenario_world scenario_template [(''tables.json'', scenario_manifest)])
       sql_template_path = Some (File scenario_template) \<and>
   nodes (scenario_world scenario_template [(''tables.json'', scenario_manifest)])
       manifests_dir = Some (Dir [''tables.json'']) \<and>
   load_manifests scenario_json_load
       (scenario_world scenario_template [(''tables.json'', scenario_manifest)])
       [''tables.json''] [] = Inr [''a_b'', ''c_d''] \<and>
   can_write (scenario_world scenario_template [(''tables.json'', scenario_manifest)])
       (output_path output_dir) \<and>
   generate_migration scenario_json_load output_dir
       (scenario_world scenario_template [(''tables.json'', scenario_manifest)])
     = (Inr (), (scenario_world scenario_template [(''tables.json'', scenario_manifest)])
          \<lparr>nodes := (nodes (scenario_world scenario_template [(''tables.json'', scenario_manifest)]))
             (output_path output_dir \<mapsto> File scenario_output)\<rparr>)"
proof -
  let ?W = "scenario_world scenario_template [(''tables.json'', scenario_manifest)]"
  have h1: "nodes ?W sql_template_path = Some (File scenario_template)" by code_simp
  have h2: "nodes ?W manifests_dir = Some (Dir [''tables.json''])" by code_simp
  have h3: "load_manifests scenario_json_load ?W [''tables.json''] [] = Inr [''a_b'', ''c_d'']"
    by code_simp
  have h4: "can_write ?W (output_path output_dir)" by code_simp
  have e: "''-- Generated SQL code for configuring timeseries maintenance''
                 @ [CHR 0x0A, CHR 0x0A]
                 @ concat (map (\<lambda>block. block @ [CHR 0x0A])
                     (map (\<lambda>t. str_replace token t scenario_template) [''a_b'', ''c_d'']))
      = scenario_output"
    by code_simp
  note th = output_is_header_then_blocks
    [of ?W scenario_template "[''tables.json'']" scenario_json_load "[''a_b'', ''c_d'']" output_dir]
  from th h1 h2 h3 h4 have "generate_migration scenario_json_load output_dir ?W
     = (Inr (), ?W\<lparr>nodes := (nodes ?W)(output_path output_dir \<mapsto>
         File (''-- Generated SQL code for configuring timeseries maintenance''
                 @ [CHR 0x0A, CHR 0x0A]
                 @ concat (map (\<lambda>block. block @ [CHR 0x0A])
                     (map (\<lambda>t. str_replace token t scenario_template) [''a_b'', ''c_d'']))))\<rparr>)"
    by blast
  then have r: "generate_migration scenario_json_load output_dir ?W
     = (Inr (), ?W\<lparr>nodes := (nodes ?W)(output_path output_dir \<mapsto> File scenario_output)\<rparr>)"
    unfolding e .
  from h1 h2 h3 h4 r show ?thesis by (intro conjI)
qed

text \<open>
  C1 as the specification words it: in the scenario the run succeeds, and what it writes
  is not the text with an empty line behind each statement.
\<close>

theorem blank_line_between_blocks_counterexample:
  "fst (generate_migration scenario_json_load output_dir
       (scenario_world scenario_template [(''tables.json'', scenario_manifest)])) = Inr () \<and>
   nodes (snd (generate_migration scenario_json_load output_dir
       (scenario_world scenario_template [(''tables.json'', scenario_manifest)])))
     (output_path output_dir) \<noteq> Some (File scenario_output_claimed)"
  by code_simp

text \<open>
  C3. The table name of an entry is its \<^verbatim>\<open>ProtoDefName\<close> with every \<open>.\<close> replaced by
  \<open>_\<close> and every character lower-cased then, character by character and nothing else:
  the length and all other characters stay. The other fields of the entry are ignored.
  In particular \<^verbatim>\<open>foo.Bar.Baz\<close> gives \<^verbatim>\<open>foo_bar_baz\<close>.
\<close>

theorem table_name_derivation:
  "(map_of kvs ''ProtoDefName'' = Some (JStr p) \<longrightarrow>
      table_name_of (JObj kvs) =
        Inr (map lower_char (map (\<lambda>c. if c = CHR ''.'' then CHR ''_'' else c) p))) \<and>
   table_name_of (JObj [(''ProtoDefName'', JStr ''foo.Bar.Baz'')]) = Inr ''foo_bar_baz''"
proof -
  have "table_name_of (JObj [(''ProtoDefName'', JStr ''foo.Bar.Baz'')]) = Inr ''foo_bar_baz''"
    by code_simp
  then show ?thesis
    by (simp add: table_name_of_def str_lower_def str_replace_single)
qed

text \<open>An entry with a further field, at the name of the specification.\<close>

theorem table_name_derivation_witness:
  "map_of [(''Package'', JStr ''x''), (''ProtoDefName'', JStr ''foo.Bar.Baz'')] ''ProtoDefName''
     = Some (JStr ''foo.Bar.Baz'') \<and>
   table_name_of (JObj [(''Package'', JStr ''x''), (''ProtoDefName'', JStr ''foo.Bar.Baz'')])
     = Inr ''foo_bar_baz''"
proof -
  have h: "map_of [(''Package'', JStr ''x''), (''ProtoDefName'', JStr ''foo.Bar.Baz'')]
      ''ProtoDefName'' = Some (JStr ''foo.Bar.Baz'')"
    by simp
  have "map lower_char (map (\<lambda>c. if c = CHR ''.'' then CHR ''_'' else c) ''foo.Bar.Baz'')
      = ''foo_bar_baz''"
    by code_simp
  with h table_name_derivation
    [of "[(''Package'', JStr ''x''), (''ProtoDefName'', JStr ''foo.Bar.Baz'')]" "''foo.Bar.Baz''"]
  show ?thesis by simp
qed








text \<open>
  C2. When the listed manifest files parse to arrays of records that all carry a
  \<^verbatim>\<open>ProtoDefName\<close> string, and \<open>ps\<close> are these names in listing order and then
  array order, the run writes the header followed by one expanded block per name, in the
  order of \<open>ps\<close>: as many blocks as there are records. Nothing is dropped, so a name
  that occurs twice gives its block twice.
\<close>

theorem one_block_per_record:
  assumes tpl: "nodes w sql_template_path = Some (File tpl)"
    and dir: "nodes w manifests_dir = Some (Dir file_names)"
    and files: "map (\<lambda>n. nodes w (path_join manifests_dir n)) file_names
        = map (\<lambda>text. Some (File text)) texts"
    and parsed: "map json_load texts = map (\<lambda>rs. Some (JArr (map JObj rs))) rss"
    and names: "map (\<lambda>r. map_of r ''ProtoDefName'') (concat rss) = map (\<lambda>p. Some (JStr p)) ps"
    and wr: "can_write w (output_path out_dir)"
  shows "\<exists>blocks.
      blocks = map (\<lambda>p. str_replace token (str_lower (str_replace ''.'' ''_'' p)) tpl) ps \<and>
      length blocks = length (concat rss) \<and>
      generate_migration json_load out_dir w =
        (Inr (), w\<lparr>nodes := (nodes w)(output_path out_dir \<mapsto>
            File (header @ concat (map (\<lambda>b. b @ newline) blocks)))\<rparr>)"
proof -
  define ts where "ts = map (\<lambda>p. str_lower (str_replace ''.'' ''_'' p)) ps"
  have "map json_load texts = map (\<lambda>es. Some (JArr es)) (map (map JObj) rss)"
    using parsed by simp
  with files have "list_all2 (\<lambda>n es. file_entries json_load w n = Inr es) file_names
      (map (map JObj) rss)"
    by (rule file_entries_all)
  moreover have "map table_name_of (concat (map (map JObj) rss)) = map Inr ts"
    unfolding ts_def map_concat [symmetric] using names by (rule table_names_of_records)
  ultimately have "load_manifests json_load w file_names [] = Inr ([] @ ts)"
    by (rule load_manifests_ok)
  then have "load_manifests json_load w file_names [] = Inr ts" by simp
  with tpl dir have "build_output_code json_load w =
      Inr (header @ concat (map (\<lambda>t. str_replace token t tpl @ newline) ts))"
    by (rule build_output_code_ok)
  then have "generate_migration json_load out_dir w =
      (Inr (), w\<lparr>nodes := (nodes w)(output_path out_dir \<mapsto>
          File (header @ concat (map (\<lambda>t. str_replace token t tpl @ newline) ts)))\<rparr>)"
    using wr by (auto simp: can_write_iff intro: generate_migration_ok)
  moreover have "length ps = length (concat rss)"
    using names by (metis length_map)
  ultimately show ?thesis
    by (simp add: ts_def comp_def)
qed

text \<open>Two manifest files with three records, the name \<^verbatim>\<open>a.B\<close> twice.\<close>

theorem one_block_per_record_witness:
  "nodes (scenario_world scenario_template two_manifests) sql_template_path
     = Some (File scenario_template) \<and>
   nodes (scenario_world scenario_template two_manifests) manifests_dir
     = Some (Dir [''a.json'', ''b.json'']) \<and>
   map (\<lambda>n. nodes (scenario_world scenario_template two_manifests) (path_join manifests_dir n))
       [''a.json'', ''b.json'']
     = map (\<lambda>text. Some (File text)) [scenario_manifest, scenario_single] \<and>
   map scenario_json_load [scenario_manifest, scenario_single]
     = map (\<lambda>rs. Some (JArr (map JObj rs)))
         [[[(''ProtoDefName'', JStr ''a.B'')], [(''ProtoDefName'', JStr ''C.d'')]],
          [[(''ProtoDefName'', JStr ''a.B'')]]] \<and>
   map (\<lambda>r. map_of r ''ProtoDefName'')
       (concat [[[(''ProtoDefName'', JStr ''a.B'')], [(''ProtoDefName'', JStr ''C.d'')]],
          [[(''ProtoDefName'', JStr ''a.B'')]]])
     = map (\<lambda>p. Some (JStr p)) [''a.B'', ''C.d'', ''a.B''] \<and>
   can_write (scenario_world scenario_template two_manifests) (output_path output_dir) \<and>
   generate_migration scenario_json_load output_dir (scenario_world scenario_template two_manifests)
     = (Inr (), (scenario_world scenario_template two_manifests)
          \<lparr>nodes := (nodes (scenario_world scenario_template two_manifests))
             (output_path output_dir \<mapsto>
                File (header @ concat (map (\<lambda>b. b @ newline)
                  [''SELECT '' @ [CHR 0x27] @ ''a_b'' @ [CHR 0x27] @ '' AS t;'',
                   ''SELECT '' @ [CHR 0x27] @ ''c_d'' @ [CHR 0x27] @ '' AS t;'',
                   ''SELECT '' @ [CHR 0x27] @ ''a_b'' @ [CHR 0x27] @ '' AS t;''])))\<rparr>)"
proof -
  let ?W = "scenario_world scenario_template two_manifests"
  let ?rss = "[[[(''ProtoDefName'', JStr ''a.B'')], [(''ProtoDefName'', JStr ''C.d'')]],
          [[(''ProtoDefName'', JStr ''a.B'')]]]"
  have h1: "nodes ?W sql_template_path = Some (File scenario_template)"
    by code_simp
  have h2: "nodes ?W manifests_dir = Some (Dir [''a.json'', ''b.json''])"
    by code_simp
  have h3: "map (\<lambda>n. nodes ?W (path_join manifests_dir n)) [''a.json'', ''b.json'']
     = map (\<lambda>text. Some (File text)) [scenario_manifest, scenario_single]"
    by code_simp
  have h4: "map scenario_json_load [scenario_manifest, scenario_single]
     = map (\<lambda>rs. Some (JArr (map JObj rs))) ?rss"
    by code_simp
  have h5: "map (\<lambda>r. map_of r ''ProtoDefName'') (concat ?rss)
     = map (\<lambda>p. Some (JStr p)) [''a.B'', ''C.d'', ''a.B'']"
    by code_simp
  have h6: "can_write ?W (output_path output_dir)"
    by code_simp
  have b: "map (\<lambda>p. str_replace token (str_lower (str_replace ''.'' ''_'' p)) scenario_template)
      [''a.B'', ''C.d'', ''a.B'']
    = [''SELECT '' @ [CHR 0x27] @ ''a_b'' @ [CHR 0x27] @ '' AS t;'',
       ''SELECT '' @ [CHR 0x27] @ ''c_d'' @ [CHR 0x27] @ '' AS t;'',
       ''SELECT '' @ [CHR 0x27] @ ''a_b'' @ [CHR 0x27] @ '' AS t;'']"
    by code_simp
  from one_block_per_record [OF h1 h2 h3 h4 h5 h6]
  have "generate_migration scenario_json_load output_dir ?W
     = (Inr (), ?W\<lparr>nodes := (nodes ?W)(output_path output_dir \<mapsto>
          File (header @ concat (map (\<lambda>b. b @ newline)
            (map (\<lambda>p. str_replace token (str_lower (str_replace ''.'' ''_'' p)) scenario_template)
              [''a.B'', ''C.d'', ''a.B'']))))\<rparr>)"
    by blast
  then have h7: "generate_migration scenario_json_load output_dir ?W
     = (Inr (), ?W\<lparr>nodes := (nodes ?W)(output_path output_dir \<mapsto>
          File (header @ concat (map (\<lambda>b. b @ newline)
                  [''SELECT '' @ [CHR 0x27] @ ''a_b'' @ [CHR 0x27] @ '' AS t;'',
                   ''SELECT '' @ [CHR 0x27] @ ''c_d'' @ [CHR 0x27] @ '' AS t;'',
                   ''SELECT '' @ [CHR 0x27] @ ''a_b'' @ [CHR 0x27] @ '' AS t;''])))\<rparr>)"
    unfolding b .
  from h1 h2 h3 h4 h5 h6 h7 show ?thesis by (intro conjI)
qed

text \<open>
  C4. When the template is missing, or the manifest directory is missing, or a listed
  manifest file cannot be parsed, or a record of a manifest has no \<^verbatim>\<open>ProtoDefName\<close>,
  the run ends with an error and the file system is as it was before: no output file has
  been created or changed.
\<close>

theorem failure_writes_nothing:
  assumes "nodes w sql_template_path = None \<or>
     nodes w manifests_dir = None \<or>
     (\<exists>file_names n text.
        nodes w manifests_dir = Some (Dir file_names) \<and> n \<in> set file_names \<and>
        nodes w (path_join manifests_dir n) = Some (File text) \<and>
        (json_load text = None \<or>
         (\<exists>es r. json_load text = Some (JArr es) \<and> JObj r \<in> set es \<and>
            map_of r ''ProtoDefName'' = None)))"
  shows "\<exists>e. generate_migration json_load out_dir w = (Inl e, w)"
proof (cases "build_output_code json_load w")
  case (Inl e)
  then have "generate_migration json_load out_dir w = (Inl e, w)"
    by (rule generate_migration_fail)
  then show ?thesis by blast
next
  case (Inr buf)
  from build_output_code_Inr [OF this] obtain tpl fns ts where
    ok: "nodes w sql_template_path = Some (File tpl)"
      "nodes w manifests_dir = Some (Dir fns)"
      "load_manifests json_load w fns [] = Inr ts"
    by blast
  with assms obtain n content where n: "n \<in> set fns"
    and f: "nodes w (path_join manifests_dir n) = Some (File content)"
    and bad: "json_load content = None \<or>
         (\<exists>es r. json_load content = Some (JArr es) \<and> JObj r \<in> set es \<and>
            map_of r ''ProtoDefName'' = None)"
    by auto
  from bad have "\<exists>e. load_manifests json_load w fns [] = Inl e"
  proof
    assume "json_load content = None"
    with f have "file_entries json_load w n = Inl JSONDecodeError"
      by (simp add: file_entries_def open_read_def)
    with n show ?thesis by (rule load_manifests_bad_file)
  next
    assume "\<exists>es r. json_load content = Some (JArr es) \<and> JObj r \<in> set es \<and>
            map_of r ''ProtoDefName'' = None"
    then obtain es r where es: "json_load content = Some (JArr es)"
      and r: "JObj r \<in> set es" "map_of r ''ProtoDefName'' = None"
      by blast
    from f es have "file_entries json_load w n = Inr es"
      by (rule file_entries_records)
    moreover from r(2) have "table_name_of (JObj r) = Inl KeyError"
      by (simp add: table_name_of_def)
    ultimately show ?thesis
      using n r(1) by (blast intro: load_manifests_bad_entry)
  qed
  with ok(3) show ?thesis by simp
qed

text \<open>
  A file system without the manifest directory, and one whose only manifest holds a record
  without \<^verbatim>\<open>ProtoDefName\<close>.
\<close>

theorem failure_writes_nothing_witness:
  "nodes ((scenario_world scenario_template two_manifests)
      \<lparr>nodes := (nodes (scenario_world scenario_template two_manifests))(manifests_dir := None)\<rparr>)
     manifests_dir = None \<and>
   (\<exists>e. generate_migration scenario_json_load output_dir
      ((scenario_world scenario_template two_manifests)
        \<lparr>nodes := (nodes (scenario_world scenario_template two_manifests))(manifests_dir := None)\<rparr>)
     = (Inl e,
        (scenario_world scenario_template two_manifests)
        \<lparr>nodes := (nodes (scenario_world scenario_template two_manifests))(manifests_dir := None)\<rparr>)) \<and>
   nodes (scenario_world scenario_template [(''t.json'', scenario_unnamed)]) manifests_dir
     = Some (Dir [''t.json'']) \<and>
   nodes (scenario_world scenario_template [(''t.json'', scenario_unnamed)])
       (path_join manifests_dir ''t.json'')
     = Some (File scenario_unnamed) \<and>
   scenario_json_load scenario_unnamed = Some (JArr [JObj [(''Name'', JStr ''a.B'')]]) \<and>
   map_of [(''Name'', JStr ''a.B'')] ''ProtoDefName'' = None \<and>
   (\<exists>e. generate_migration scenario_json_load output_dir
       (scenario_world scenario_template [(''t.json'', scenario_unnamed)])
     = (Inl e, scenario_world scenario_template [(''t.json'', scenario_unnamed)]))"
proof -
  let ?W = "(scenario_world scenario_template two_manifests)
      \<lparr>nodes := (nodes (scenario_world scenario_template two_manifests))(manifests_dir := None)\<rparr>"
  let ?V = "scenario_world scenario_template [(''t.json'', scenario_unnamed)]"
  have h: "nodes ?W manifests_dir = None" by simp
  then have "nodes ?W sql_template_path = None \<or>
     nodes ?W manifests_dir = None \<or>
     (\<exists>file_names n text.
        nodes ?W manifests_dir = Some (Dir file_names) \<and> n \<in> set file_names \<and>
        nodes ?W (path_join manifests_dir n) = Some (File text) \<and>
        (scenario_json_load text = None \<or>
         (\<exists>es r. scenario_json_load text = Some (JArr es) \<and> JObj r \<in> set es \<and>
            map_of r ''ProtoDefName'' = None)))"
    by (intro disjI2 disjI1)
  from failure_writes_nothing [OF this, of output_dir]
  have c1: "\<exists>e. generate_migration scenario_json_load output_dir ?W = (Inl e, ?W)" .
  have d: "nodes ?V manifests_dir = Some (Dir [''t.json''])" by code_simp
  have m: "''t.json'' \<in> set [''t.json'']" by simp
  have f: "nodes ?V (path_join manifests_dir ''t.json'') = Some (File scenario_unnamed)"
    by code_simp
  have j: "scenario_json_load scenario_unnamed = Some (JArr [JObj [(''Name'', JStr ''a.B'')]])"
    by code_simp
  have r: "JObj [(''Name'', JStr ''a.B'')] \<in> set [JObj [(''Name'', JStr ''a.B'')]]" by simp
  have k: "map_of [(''Name'', JStr ''a.B'')] ''ProtoDefName'' = None" by simp
  from d m f j r k have "nodes ?V sql_template_path = None \<or>
     nodes ?V manifests_dir = None \<or>
     (\<exists>file_names n text.
        nodes ?V manifests_dir = Some (Dir file_names) \<and> n \<in> set file_names \<and>
        nodes ?V (path_join manifests_dir n) = Some (File text) \<and>
        (scenario_json_load text = None \<or>
         (\<exists>es r. scenario_json_load text = Some (JArr es) \<and> JObj r \<in> set es \<and>
            map_of r ''ProtoDefName'' = None)))"
    by blast
  from failure_writes_nothing [OF this, of output_dir]
  have c2: "\<exists>e. generate_migration scenario_json_load output_dir ?V = (Inl e, ?V)" .
  from h c1 d f j k c2 show ?thesis by (intro conjI)
qed

text \<open>
  C9. When every listed manifest file holds the empty array (in particular when the
  directory is empty), and the template can be read and the output path written, the run
  succeeds and the output file holds the header line and one empty line, nothing else.
  And whatever a successful run has written ends with a newline character.
\<close>

theorem empty_manifests_give_header:
  "(nodes w sql_template_path = Some (File tpl) \<and>
    nodes w manifests_dir = Some (Dir file_names) \<and>
    (\<forall>n\<in>set file_names. \<exists>text.
        nodes w (path_join manifests_dir n) = Some (File text) \<and>
        json_load text = Some (JArr [])) \<and>
    can_write w (output_path out_dir) \<longrightarrow>
    generate_migration json_load out_dir w =
      (Inr (), w\<lparr>nodes := (nodes w)(output_path out_dir \<mapsto>
         File (''-- Generated SQL code for configuring timeseries maintenance''
                 @ [CHR 0x0A, CHR 0x0A]))\<rparr>)) \<and>
   (generate_migration json_load out_dir w = (Inr (), w') \<longrightarrow>
      (\<exists>s. nodes w' (output_path out_dir) = Some (File (s @ [CHR 0x0A]))))"
proof (intro conjI impI)
  assume a: "nodes w sql_template_path = Some (File tpl) \<and>
    nodes w manifests_dir = Some (Dir file_names) \<and>
    (\<forall>n\<in>set file_names. \<exists>text.
        nodes w (path_join manifests_dir n) = Some (File text) \<and>
        json_load text = Some (JArr [])) \<and>
    can_write w (output_path out_dir)"
  have "list_all2 (\<lambda>n es. file_entries json_load w n = Inr es) file_names
      (replicate (length file_names) [])"
  proof (rule list_all2_all_nthI)
    show "length file_names = length (replicate (length file_names) ([] :: json list))"
      by simp
  next
    fix i assume i: "i < length file_names"
    then have "file_names ! i \<in> set file_names" by simp
    with a obtain content where
      "nodes w (path_join manifests_dir (file_names ! i)) = Some (File content)"
      "json_load content = Some (JArr [])"
      by blast
    then have "file_entries json_load w (file_names ! i) = Inr []"
      by (rule file_entries_records)
    with i show "file_entries json_load w (file_names ! i)
        = Inr (replicate (length file_names) [] ! i)"
      by simp
  qed
  moreover have "map table_name_of (concat (replicate (length file_names) [])) = map Inr []"
    by simp
  ultimately have "load_manifests json_load w file_names [] = Inr ([] @ [])"
    by (rule load_manifests_ok)
  with a have "build_output_code json_load w = Inr header"
    using build_output_code_ok [of w tpl file_names json_load "[]"] by simp
  with a have "generate_migration json_load out_dir w =
      (Inr (), w\<lparr>nodes := (nodes w)(output_path out_dir \<mapsto> File header)\<rparr>)"
    by (auto simp: can_write_iff intro: generate_migration_ok)
  then show "generate_migration json_load out_dir w =
      (Inr (), w\<lparr>nodes := (nodes w)(output_path out_dir \<mapsto>
         File (''-- Generated SQL code for configuring timeseries maintenance''
                 @ [CHR 0x0A, CHR 0x0A]))\<rparr>)"
    by (simp add: header_def newline_def)
next
  assume "generate_migration json_load out_dir w = (Inr (), w')"
  from generate_migration_Inr [OF this] obtain buf where
    b: "build_output_code json_load w = Inr buf"
    and w': "w' = w\<lparr>nodes := (nodes w)(output_path out_dir \<mapsto> File buf)\<rparr>"
    by blast
  from build_output_code_Inr [OF b] obtain tpl' ts where
    "buf = header @ concat (map (\<lambda>t. str_replace token t tpl' @ newline) ts)"
    by blast
  with ends_with_newline [of tpl' ts] obtain s where "buf = s @ [CHR 0x0A]"
    by (auto simp: newline_def)
  with w' show "\<exists>s. nodes w' (output_path out_dir) = Some (File (s @ [CHR 0x0A]))"
    by simp
qed

text \<open>Two manifest files, each the empty array.\<close>

theorem empty_manifests_give_header_witness:
  "nodes (scenario_world scenario_template [(''a.json'', ''[]''), (''b.json'', ''[]'')])
       sql_template_path = Some (File scenario_template) \<and>
   nodes (scenario_world scenario_template [(''a.json'', ''[]''), (''b.json'', ''[]'')])
       manifests_dir = Some (Dir [''a.json'', ''b.json'']) \<and>
   list_all (\<lambda>n. nodes (scenario_world scenario_template [(''a.json'', ''[]''), (''b.json'', ''[]'')])
       (path_join manifests_dir n) = Some (File ''[]'')) [''a.json'', ''b.json''] \<and>
   scenario_json_load ''[]'' = Some (JArr []) \<and>
   can_write (scenario_world scenario_template [(''a.json'', ''[]''), (''b.json'', ''[]'')])
       (output_path output_dir) \<and>
   generate_migration scenario_json_load output_dir
       (scenario_world scenario_template [(''a.json'', ''[]''), (''b.json'', ''[]'')])
     = (Inr (), (scenario_world scenario_template [(''a.json'', ''[]''), (''b.json'', ''[]'')])
          \<lparr>nodes := (nodes (scenario_world scenario_template [(''a.json'', ''[]''), (''b.json'', ''[]'')]))
             (output_path output_dir \<mapsto>
                File (''-- Generated SQL code for configuring timeseries maintenance''
                        @ [CHR 0x0A, CHR 0x0A]))\<rparr>) \<and>
   (\<exists>s. nodes ((scenario_world scenario_template [(''a.json'', ''[]''), (''b.json'', ''[]'')])
          \<lparr>nodes := (nodes (scenario_world scenario_template [(''a.json'', ''[]''), (''b.json'', ''[]'')]))
             (output_path output_dir \<mapsto>
                File (''-- Generated SQL code for configuring timeseries maintenance''
                        @ [CHR 0x0A, CHR 0x0A]))\<rparr>) (output_path output_dir)
        = Some (File (s @ [CHR 0x0A])))"
proof -
  let ?W = "scenario_world scenario_template [(''a.json'', ''[]''), (''b.json'', ''[]'')]"
  let ?W' = "?W\<lparr>nodes := (nodes ?W)(output_path output_dir \<mapsto>
                File (''-- Generated SQL code for configuring timeseries maintenance''
                        @ [CHR 0x0A, CHR 0x0A]))\<rparr>"
  have h1: "nodes ?W sql_template_path = Some (File scenario_template)" by code_simp
  have h2: "nodes ?W manifests_dir = Some (Dir [''a.json'', ''b.json''])" by code_simp
  have h3: "list_all (\<lambda>n. nodes ?W (path_join manifests_dir n) = Some (File ''[]''))
      [''a.json'', ''b.json'']"
    by code_simp
  have h4: "scenario_json_load ''[]'' = Some (JArr [])" by code_simp
  have h5: "can_write ?W (output_path output_dir)" by code_simp
  from h3 h4 have h34: "\<forall>n\<in>set [''a.json'', ''b.json'']. \<exists>text.
        nodes ?W (path_join manifests_dir n) = Some (File text) \<and>
        scenario_json_load text = Some (JArr [])"
    unfolding list_all_iff by blast
  note th = empty_manifests_give_header
    [of ?W scenario_template "[''a.json'', ''b.json'']" scenario_json_load output_dir]
  from th h1 h2 h34 h5 have r: "generate_migration scenario_json_load output_dir ?W = (Inr (), ?W')"
    by blast
  with empty_manifests_give_header [of ?W scenario_template "[''a.json'', ''b.json'']"
      scenario_json_load output_dir ?W']
  have e: "\<exists>s. nodes ?W' (output_path output_dir) = Some (File (s @ [CHR 0x0A]))"
    by blast
  from h1 h2 h3 h4 h5 r e show ?thesis by (intro conjI)
qed

text \<open>
  C7. The output depends on the template, the listing of the manifest directory and the
  listed files only: two successful runs on file systems that agree on these write the
  same output file. With the module's own output directory, a second successful run after
  a successful one leaves the file system as the first run left it.
\<close>

theorem rerun_writes_same_output:
  "((\<forall>p\<in>input_paths w1. nodes w2 p = nodes w1 p) \<and>
    generate_migration json_load dir1 w1 = (Inr (), w1') \<and>
    generate_migration json_load dir2 w2 = (Inr (), w2') \<longrightarrow>
      nodes w2' (output_path dir2) = nodes w1' (output_path dir1)) \<and>
   (generate_migration json_load output_dir w = (Inr (), w') \<and>
    generate_migration json_load output_dir w' = (Inr (), w'') \<longrightarrow>
      w'' = w')"
proof (intro conjI impI)
  assume a: "(\<forall>p\<in>input_paths w1. nodes w2 p = nodes w1 p) \<and>
    generate_migration json_load dir1 w1 = (Inr (), w1') \<and>
    generate_migration json_load dir2 w2 = (Inr (), w2')"
  then have r1: "generate_migration json_load dir1 w1 = (Inr (), w1')"
    and r2: "generate_migration json_load dir2 w2 = (Inr (), w2')"
    and same: "\<And>p. p \<in> input_paths w1 \<Longrightarrow> nodes w2 p = nodes w1 p"
    by blast+
  from generate_migration_Inr [OF r1] obtain b1 where
    b1: "build_output_code json_load w1 = Inr b1"
      "w1' = w1\<lparr>nodes := (nodes w1)(output_path dir1 \<mapsto> File b1)\<rparr>"
    by blast
  from generate_migration_Inr [OF r2] obtain b2 where
    b2: "build_output_code json_load w2 = Inr b2"
      "w2' = w2\<lparr>nodes := (nodes w2)(output_path dir2 \<mapsto> File b2)\<rparr>"
    by blast
  have "build_output_code json_load w2 = build_output_code json_load w1"
    by (rule build_output_code_cong) (rule same)
  with b1(1) b2(1) have "b2 = b1" by simp
  then show "nodes w2' (output_path dir2) = nodes w1' (output_path dir1)"
    by (simp add: b1(2) b2(2))
next
  assume a: "generate_migration json_load output_dir w = (Inr (), w') \<and>
    generate_migration json_load output_dir w' = (Inr (), w'')"
  then have "generate_migration json_load output_dir w = (Inr (), w')" by simp
  then have "generate_migration json_load output_dir w' = (Inr (), w')"
    using default_output_not_input by (rule rerun_fixpoint)
  with a show "w'' = w'" by simp
qed

text \<open>
  The scenario with and without an output file of an earlier run, and a second run on the
  result.
\<close>

theorem rerun_writes_same_output_witness:
  "list_all (\<lambda>p. nodes stale_world p
       = nodes (scenario_world scenario_template [(''tables.json'', scenario_manifest)]) p)
     [sql_template_path, manifests_dir, path_join manifests_dir ''tables.json''] \<and>
   generate_migration scenario_json_load output_dir
       (scenario_world scenario_template [(''tables.json'', scenario_manifest)])
     = (Inr (), (scenario_world scenario_template [(''tables.json'', scenario_manifest)])
          \<lparr>nodes := (nodes (scenario_world scenario_template [(''tables.json'', scenario_manifest)]))
             (output_path output_dir \<mapsto> File scenario_output)\<rparr>) \<and>
   generate_migration scenario_json_load output_dir stale_world
     = (Inr (), stale_world\<lparr>nodes := (nodes stale_world)
          (output_path output_dir \<mapsto> File scenario_output)\<rparr>) \<and>
   nodes (stale_world\<lparr>nodes := (nodes stale_world)
          (output_path output_dir \<mapsto> File scenario_output)\<rparr>) (output_path output_dir)
     = nodes ((scenario_world scenario_template [(''tables.json'', scenario_manifest)])
          \<lparr>nodes := (nodes (scenario_world scenario_template [(''tables.json'', scenario_manifest)]))
             (output_path output_dir \<mapsto> File scenario_output)\<rparr>) (output_path output_dir) \<and>
   generate_migration scenario_json_load output_dir
       (stale_world\<lparr>nodes := (nodes stale_world)
          (output_path output_dir \<mapsto> File scenario_output)\<rparr>)
     = (Inr (), (stale_world\<lparr>nodes := (nodes stale_world)
          (output_path output_dir \<mapsto> File scenario_output)\<rparr>)
          \<lparr>nodes := (nodes (stale_world\<lparr>nodes := (nodes stale_world)
                (output_path output_dir \<mapsto> File scenario_output)\<rparr>))
             (output_path output_dir \<mapsto> File scenario_output)\<rparr>) \<and>
   (stale_world\<lparr>nodes := (nodes stale_world)
          (output_path output_dir \<mapsto> File scenario_output)\<rparr>)
          \<lparr>nodes := (nodes (stale_world\<lparr>nodes := (nodes stale_world)
                (output_path output_dir \<mapsto> File scenario_output)\<rparr>))
             (output_path output_dir \<mapsto> File scenario_output)\<rparr>
     = stale_world\<lparr>nodes := (nodes stale_world)
          (output_path output_dir \<mapsto> File scenario_output)\<rparr>"
proof -
  let ?W = "scenario_world scenario_template [(''tables.json'', scenario_manifest)]"
  let ?W' = "?W\<lparr>nodes := (nodes ?W)(output_path output_dir \<mapsto> File scenario_output)\<rparr>"
  let ?S' = "stale_world\<lparr>nodes := (nodes stale_world)
          (output_path output_dir \<mapsto> File scenario_output)\<rparr>"
  let ?S'' = "?S'\<lparr>nodes := (nodes ?S')(output_path output_dir \<mapsto> File scenario_output)\<rparr>"
  have agree: "list_all (\<lambda>p. nodes stale_world p = nodes ?W p)
     [sql_template_path, manifests_dir, path_join manifests_dir ''tables.json'']"
    by code_simp
  have d: "nodes ?W manifests_dir = Some (Dir [''tables.json''])"
    by code_simp
  have ip: "input_paths ?W
      = set [sql_template_path, manifests_dir, path_join manifests_dir ''tables.json'']"
    using d by (simp add: input_paths_def listdir_def)
  from agree have ball: "\<forall>p\<in>input_paths ?W. nodes stale_world p = nodes ?W p"
    unfolding ip list_all_iff .
  have b1: "build_output_code scenario_json_load ?W = Inr scenario_output"
    by code_simp
  have c1: "can_write ?W (output_path output_dir)"
    by code_simp
  from b1 c1 have r1: "generate_migration scenario_json_load output_dir ?W = (Inr (), ?W')"
    by (rule run_ok)
  have b2: "build_output_code scenario_json_load stale_world = Inr scenario_output"
    by code_simp
  have c2: "can_write stale_world (output_path output_dir)"
    by code_simp
  from b2 c2 have r2: "generate_migration scenario_json_load output_dir stale_world = (Inr (), ?S')"
    by (rule run_ok)
  have b3: "build_output_code scenario_json_load ?S' = Inr scenario_output"
    by code_simp
  have c3: "can_write ?S' (output_path output_dir)"
    by code_simp
  from b3 c3 have r3: "generate_migration scenario_json_load output_dir ?S' = (Inr (), ?S'')"
    by (rule run_ok)
  note th = rerun_writes_same_output
    [of ?W stale_world scenario_json_load output_dir ?W' output_dir ?S' stale_world ?S' ?S'']
  from th ball r1 r2 have same:
    "nodes ?S' (output_path output_dir) = nodes ?W' (output_path output_dir)"
    by blast
  from th r2 r3 have again: "?S'' = ?S'"
    by blast
  from agree r1 r2 same r3 again show ?thesis by (intro conjI)
qed

text \<open>
  C8. After a successful run the output file holds exactly the assembled buffer, and the
  run has changed nothing else. With the module's own output directory, had the output
  file held any other text before, the run would have ended in the same file system.
\<close>

theorem successful_run_replaces_output:
  assumes run: "generate_migration json_load out_dir w = (Inr (), w')"
  shows "\<exists>buf. build_output_code json_load w = Inr buf \<and>
      w' = w\<lparr>nodes := (nodes w)(output_path out_dir \<mapsto> File buf)\<rparr> \<and>
      (\<forall>old. out_dir = output_dir \<longrightarrow>
         generate_migration json_load out_dir
           (w\<lparr>nodes := (nodes w)(output_path out_dir \<mapsto> File old)\<rparr>) = (Inr (), w'))"
proof -
  from generate_migration_Inr [OF run] obtain buf where
    b: "build_output_code json_load w = Inr buf"
    and w': "w' = w\<lparr>nodes := (nodes w)(output_path out_dir \<mapsto> File buf)\<rparr>"
    by blast
  have d: "\<forall>old. out_dir = output_dir \<longrightarrow>
         generate_migration json_load out_dir
           (w\<lparr>nodes := (nodes w)(output_path out_dir \<mapsto> File old)\<rparr>) = (Inr (), w')"
  proof (intro allI impI)
    fix old assume "out_dir = output_dir"
    then have "output_path out_dir \<notin> input_paths w"
      by (simp only: default_output_not_input not_False_eq_True)
    with run show "generate_migration json_load out_dir
           (w\<lparr>nodes := (nodes w)(output_path out_dir \<mapsto> File old)\<rparr>) = (Inr (), w')"
      by (rule rerun_with_old_content)
  qed
  from b w' d show ?thesis by (intro exI [of _ buf] conjI)
qed

text \<open>The scenario with an output file left by an earlier run.\<close>

theorem successful_run_replaces_output_witness:
  "generate_migration scenario_json_load output_dir stale_world
     = (Inr (), stale_world\<lparr>nodes := (nodes stale_world)
          (output_path output_dir \<mapsto> File scenario_output)\<rparr>) \<and>
   nodes stale_world (output_path output_dir) = Some (File ''-- stale'') \<and>
   build_output_code scenario_json_load stale_world = Inr scenario_output \<and>
   generate_migration scenario_json_load output_dir
       (stale_world\<lparr>nodes := (nodes stale_world)
          (output_path output_dir \<mapsto> File ''-- older still'')\<rparr>)
     = (Inr (), stale_world\<lparr>nodes := (nodes stale_world)
          (output_path output_dir \<mapsto> File scenario_output)\<rparr>)"
proof -
  let ?W' = "stale_world\<lparr>nodes := (nodes stale_world)
          (output_path output_dir \<mapsto> File scenario_output)\<rparr>"
  have b: "build_output_code scenario_json_load stale_world = Inr scenario_output"
    by code_simp
  have c: "can_write stale_world (output_path output_dir)"
    by code_simp
  have o: "nodes stale_world (output_path output_dir) = Some (File ''-- stale'')"
    by (simp add: stale_world_def)
  from b c have run: "generate_migration scenario_json_load output_dir stale_world = (Inr (), ?W')"
    by (rule run_ok)
  from successful_run_replaces_output [OF run] have
    "\<forall>old. output_dir = output_dir \<longrightarrow>
         generate_migration scenario_json_load output_dir
           (stale_world\<lparr>nodes := (nodes stale_world)(output_path output_dir \<mapsto> File old)\<rparr>)
         = (Inr (), ?W')"
    by blast
  then have again: "generate_migration scenario_json_load output_dir
       (stale_world\<lparr>nodes := (nodes stale_world)
          (output_path output_dir \<mapsto> File ''-- older still'')\<rparr>) = (Inr (), ?W')"
    by blast
  from run o b again show ?thesis by (intro conjI)
qed

end
